theory Spec2Isabelle
  imports Complex_Main "HOL-Library.AList"
begin

section \<open>Flash-sale post generator: the post-generation pipeline of \<open>main.py\<close>\<close>

text \<open>
  The theory embeds the methods of \<open>FlashSalePostGenerator\<close>: the query contract validator,
  the normalisation of warehouse rows, the tracking-link client, the post renderer, the
  orchestrating loop and the webhook dispatcher. The Streamlit front end is left out, except
  for the warnings and errors it is asked to display, which are recorded as events.
\<close>

subsection \<open>Strings\<close>

text \<open>
  A Python \<open>str\<close> is a \<open>string\<close>: the list of the bytes of its UTF-8 encoding. A character of
  ASCII is one byte below 128; a character outside ASCII (the Arabic and the emoji of the post
  template, say) is two to four bytes from 128 on.
\<close>

text \<open>\<open>starts_with s p\<close> is \<open>s.startswith(p)\<close>, and \<open>py_contains s sub\<close> is \<open>sub in s\<close>.\<close>

fun starts_with :: "'a list \<Rightarrow> 'a list \<Rightarrow> bool" where
  "starts_with s [] = True"
| "starts_with [] (p # ps) = False"
| "starts_with (c # cs) (p # ps) = (c = p \<and> starts_with cs ps)"

fun py_contains :: "'a list \<Rightarrow> 'a list \<Rightarrow> bool" where
  "py_contains [] sub = (sub = [])"
| "py_contains (c # cs) sub = (starts_with (c # cs) sub \<or> py_contains cs sub)"

text \<open>\<open>join_str sep xs\<close> is \<open>sep.join(xs)\<close>.\<close>

fun join_str :: "string \<Rightarrow> string list \<Rightarrow> string" where
  "join_str sep [] = []"
| "join_str sep [x] = x"
| "join_str sep (x # y # ys) = x @ sep @ join_str sep (y # ys)"

text \<open>
  The characters of a text, as Unicode code points: \<open>utf8_decode\<close> reads a character from one
  byte below 128, or from a leading byte and the low six bits of each of the one to three
  bytes after it. A list of bytes that is not the encoding of a text stands for no \<open>str\<close>;
  there the function gives the replacement character \<open>U+FFFD\<close> or a number of no meaning.
\<close>

definition continuation :: "char \<Rightarrow> nat" where
  "continuation c = of_char c mod 64"

fun utf8_decode :: "string \<Rightarrow> nat list" where
  "utf8_decode [] = []"
| "utf8_decode (c # cs) =
     (let b = (of_char c :: nat) in
      if b < 0x80 then b # utf8_decode cs
      else if 0xC0 \<le> b \<and> b < 0xE0 then
        (case cs of
           c1 # rest \<Rightarrow> (b mod 32 * 64 + continuation c1) # utf8_decode rest
         | _ \<Rightarrow> [0xFFFD])
      else if 0xE0 \<le> b \<and> b < 0xF0 then
        (case cs of
           c1 # c2 # rest \<Rightarrow>
             (b mod 16 * 4096 + continuation c1 * 64 + continuation c2) # utf8_decode rest
         | _ \<Rightarrow> [0xFFFD])
      else if 0xF0 \<le> b \<and> b < 0xF8 then
        (case cs of
           c1 # c2 # c3 # rest \<Rightarrow>
             (b mod 8 * 262144 + continuation c1 * 4096 + continuation c2 * 64 + continuation c3)
             # utf8_decode rest
         | _ \<Rightarrow> [0xFFFD])
      else 0xFFFD # utf8_decode cs)"

text \<open>
  \<open>lower\<close> is \<open>str.lower()\<close>, which goes through the text character by character. In ASCII the
  letters \<open>A\<close> to \<open>Z\<close> become \<open>a\<close> to \<open>z\<close> and every other character stays. Outside ASCII the
  lower case of a character comes from the Unicode tables of the interpreter, and there two
  characters have a lower case with an ASCII letter in it: the Kelvin sign \<open>U+212A\<close> becomes
  \<open>k\<close>, and the capital I with a dot above, \<open>U+0130\<close>, becomes \<open>i\<close> followed by the combining
  dot \<open>U+0307\<close>. Every other character outside ASCII becomes one character outside ASCII
  (which one may depend on its neighbours: a capital sigma becomes one of two small sigmas).

  The program looks in a lowered text only for the column names, which are ASCII. So a
  lowered text is kept as the list of its characters with the ASCII characters as they are
  and \<open>NonAscii\<close> for each character outside ASCII.
\<close>

datatype lowered_char = Ascii char | NonAscii

definition lower_ascii :: "char \<Rightarrow> char" where
  "lower_ascii c =
     (let n = (of_char c :: nat) in if 65 \<le> n \<and> n \<le> 90 then char_of (n + 32) else c)"

definition lower_code_point :: "nat \<Rightarrow> lowered_char list" where
  "lower_code_point c =
     (if c < 0x80 then [Ascii (lower_ascii (char_of c))]
      else if c = 0x212A then [Ascii CHR ''k'']
      else if c = 0x130 then [Ascii CHR ''i'', NonAscii]
      else [NonAscii])"

definition lower :: "string \<Rightarrow> lowered_char list" where
  "lower s = concat (map lower_code_point (utf8_decode s))"

subsection \<open>Query contract validator\<close>

definition required_columns :: "string list" where
  "required_columns =
     [''sf_vehicle_name'', ''ajans_vehicle_id'', ''published_at'', ''car_make'',
      ''car_model'', ''car_year'', ''kilometrage'']"

text \<open>
  The loop of \<open>validate_query_columns\<close> over the required columns, with the list
  \<open>missing_columns\<close> it appends to.
\<close>

fun collect_missing ::
  "lowered_char list \<Rightarrow> string list \<Rightarrow> string list \<Rightarrow> string list" where
  "collect_missing query_lower [] missing_columns = missing_columns"
| "collect_missing query_lower (column # columns) missing_columns =
     collect_missing query_lower columns
       (if \<not> py_contains query_lower (lower column) then missing_columns @ [column]
        else missing_columns)"

definition validate_query_columns :: "string \<Rightarrow> bool \<times> string list" where
  "validate_query_columns query =
     (let query_lower = lower query;
          missing_columns = collect_missing query_lower required_columns []
      in (length missing_columns = 0, missing_columns))"

text \<open>
  What the specification calls a case-insensitive occurrence of a column name in a query.
  The names are written with the letters \<open>a\<close> to \<open>z\<close> and the underscore. A character of the
  query is the same letter as a character of the name when it is that character or a capital
  form of it; the capital forms of a letter are the characters whose lower case is that
  letter: its ASCII capital, and for \<open>k\<close> also the Kelvin sign. The name occurs in the query
  when some stretch of the characters of the query is the name, letter by letter.
\<close>

definition capital_forms :: "(nat \<times> char) list" where
  "capital_forms =
     zip (map of_char ''ABCDEFGHIJKLMNOPQRSTUVWXYZ'') ''abcdefghijklmnopqrstuvwxyz''
     @ [(0x212A, CHR ''k'')]"

definition same_letter :: "nat \<Rightarrow> char \<Rightarrow> bool" where
  "same_letter c d \<longleftrightarrow> c = of_char d \<or> (c, d) \<in> set capital_forms"

definition occurs_ignoring_case :: "string \<Rightarrow> nat list \<Rightarrow> bool" where
  "occurs_ignoring_case name text \<longleftrightarrow>
     (\<exists>before part after. text = before @ part @ after \<and> list_all2 same_letter part name)"

text \<open>The characters of which the required column names are made.\<close>

definition column_letters :: string where
  "column_letters = ''abcdefghijklmnopqrstuvwxyz_''"

text \<open>
  Two queries that spell the columns with capitals, the second with the Kelvin sign for the
  \<open>K\<close> of \<open>kilometrage\<close>; and one that spells \<open>published_at\<close> with the dotted capital I.
\<close>

definition example_query_capitals :: string where
  "example_query_capitals =
     ''SELECT Sf_Vehicle_Name, AJANS_VEHICLE_ID, Published_At, CAR_MAKE, car_model, Car_Year, KILOMETRAGE FROM cars''"

definition example_query_kelvin :: string where
  "example_query_kelvin =
     ''SELECT sf_vehicle_name, ajans_vehicle_id, published_at, car_make, car_model, car_year, ''
     @ [CHR 0xE2, CHR 0x84, CHR 0xAA] @ ''ILOMETRAGE FROM cars''"

definition example_query_dotted :: string where
  "example_query_dotted =
     ''SELECT sf_vehicle_name, ajans_vehicle_id, PUBL'' @ [CHR 0xC4, CHR 0xB0]
     @ ''SHED_AT, car_make, car_model, car_year, kilometrage FROM cars''"

subsection \<open>Python values\<close>

datatype py_error = TypeError | ValueError | KeyError

text \<open>
  The values of a text cell of the warehouse, of a field of a car or a post, and of an entry
  of the link service's JSON object: \<open>None\<close> (also a null cell, for which \<open>pd.isna\<close> holds),
  a \<open>bool\<close>, an \<open>int\<close> or a \<open>str\<close>. Floats occur only in the numeric columns below, where
  the code turns them into an \<open>int\<close> at once; lists and dicts as field values are left out.
\<close>

datatype pyval = PNone | PBool bool | PInt int | PStr string

text \<open>\<open>bool(v)\<close>, as \<open>not v\<close>, \<open>if v\<close> and \<open>a or b\<close> use it.\<close>

fun truthy :: "pyval \<Rightarrow> bool" where
  "truthy PNone = False"
| "truthy (PBool b) = b"
| "truthy (PInt i) = (i \<noteq> 0)"
| "truthy (PStr s) = (s \<noteq> [])"

definition py_or :: "pyval \<Rightarrow> pyval \<Rightarrow> pyval" where
  "py_or a b = (if truthy a then a else b)"

fun isna :: "pyval \<Rightarrow> bool" where
  "isna PNone = True"
| "isna v = False"

subsection \<open>Numbers as text\<close>

definition digit_char :: "nat \<Rightarrow> char" where
  "digit_char d = char_of (48 + d)"

fun show_nat :: "nat \<Rightarrow> string" where
  "show_nat n = (if n < 10 then [digit_char n] else show_nat (n div 10) @ [digit_char (n mod 10)])"

declare show_nat.simps [simp del]

definition show_int :: "int \<Rightarrow> string" where
  "show_int i = (if i < 0 then ''-'' @ show_nat (nat (- i)) else show_nat (nat i))"

text \<open>\<open>str(v)\<close>, which is also \<open>format(v, '')\<close> and what an f-string puts for \<open>{v}\<close>.\<close>

fun py_str :: "pyval \<Rightarrow> string" where
  "py_str PNone = ''None''"
| "py_str (PBool b) = (if b then ''True'' else ''False'')"
| "py_str (PInt i) = show_int i"
| "py_str (PStr s) = s"

text \<open>
  Thousands separators: \<open>group_rev\<close> works on the digits from the last to the first and puts
  a comma after every third one that has a digit behind it.
\<close>

fun group_rev :: "string \<Rightarrow> string" where
  "group_rev (a # b # c # d # ds) = a # b # c # CHR '','' # group_rev (d # ds)"
| "group_rev ds = ds"

definition comma_group :: "string \<Rightarrow> string" where
  "comma_group ds = rev (group_rev (rev ds))"

text \<open>
  \<open>format(v, ',')\<close>: an \<open>int\<close> (and a \<open>bool\<close>, which formats as the int it is) gets its sign
  and its grouped digits; \<open>str\<close> raises \<open>ValueError\<close> and \<open>None\<close> raises \<open>TypeError\<close>.
\<close>

definition comma_int :: "int \<Rightarrow> string" where
  "comma_int i =
     (if i < 0 then ''-'' @ comma_group (show_nat (nat (- i))) else comma_group (show_nat (nat i)))"

fun format_comma :: "pyval \<Rightarrow> py_error + string" where
  "format_comma PNone = Inl TypeError"
| "format_comma (PBool b) = Inr (comma_int (if b then 1 else 0))"
| "format_comma (PInt i) = Inr (comma_int i)"
| "format_comma (PStr s) = Inl ValueError"

datatype format_spec = Plain | Comma

fun format_value :: "format_spec \<Rightarrow> pyval \<Rightarrow> py_error + string" where
  "format_value Plain v = Inr (py_str v)"
| "format_value Comma v = format_comma v"

text \<open>
  A format string is its parts in order, and \<open>str_format parts kwargs\<close> is
  \<open>template.format(**kwargs)\<close>: the fields are filled from left to right and the first one
  that cannot be formatted raises.
\<close>

datatype template_part = Text string | Field string format_spec

fun str_format :: "template_part list \<Rightarrow> (string \<times> pyval) list \<Rightarrow> py_error + string" where
  "str_format [] kwargs = Inr []"
| "str_format (Text s # parts) kwargs =
     (case str_format parts kwargs of Inl e \<Rightarrow> Inl e | Inr rest \<Rightarrow> Inr (s @ rest))"
| "str_format (Field name spec # parts) kwargs =
     (case map_of kwargs name of
        None \<Rightarrow> Inl KeyError
      | Some v \<Rightarrow>
          (case format_value spec v of
             Inl e \<Rightarrow> Inl e
           | Inr s \<Rightarrow>
               (case str_format parts kwargs of Inl e \<Rightarrow> Inl e | Inr rest \<Rightarrow> Inr (s @ rest))))"

subsection \<open>Constants of the module\<close>

definition WEBHOOK_ENDPOINT :: string where
  "WEBHOOK_ENDPOINT =
     ''https://anasalaa.app.n8n.cloud/webhook/6443b1e8-366d-4065-b2e0-73dceab9b820''"

text \<open>The fixed text of the post template between its fields, as UTF-8.\<close>

definition template_head :: string where
  "template_head = [CHR 0xF0, CHR 0x9F, CHR 0x9A, CHR 0x97] @ '' ''"

definition template_tail :: string where
  "template_tail =
     '' '' @ [CHR 0xD9, CHR 0x83, CHR 0xD9, CHR 0x85, CHR 0x0A, CHR 0xD8, CHR 0xAF, CHR 0xD9,
       CHR 0x84, CHR 0xD9, CHR 0x88, CHR 0xD9, CHR 0x82, CHR 0xD8, CHR 0xAA, CHR 0xD9, CHR 0x8A]
     @ '' '' @ [CHR 0xD9, CHR 0x86, CHR 0xD8, CHR 0xB2, CHR 0xD9, CHR 0x84, CHR 0xD8, CHR 0xAA]
     @ '' '' @ [CHR 0xD8, CHR 0xB9, CHR 0xD9, CHR 0x84, CHR 0xD9, CHR 0x89]
     @ '' '' @ [CHR 0xD8, CHR 0xA7, CHR 0xD9, CHR 0x84, CHR 0xD8, CHR 0xAA, CHR 0xD8, CHR 0xB7,
       CHR 0xD8, CHR 0xA8, CHR 0xD9, CHR 0x8A, CHR 0xD9, CHR 0x82]
     @ '' '' @ [CHR 0xD8, CHR 0xA8, CHR 0xD8, CHR 0xB3, CHR 0xD8, CHR 0xB9, CHR 0xD8, CHR 0xB1]
     @ '' '' @ [CHR 0xD8, CHR 0xAE, CHR 0xD8, CHR 0xA7, CHR 0xD8, CHR 0xB5]
     @ '' '' @ [CHR 0xD9, CHR 0x84, CHR 0xD9, CHR 0x85, CHR 0xD8, CHR 0xAF, CHR 0xD8, CHR 0xA9]
     @ '' 36 '' @ [CHR 0xD8, CHR 0xB3, CHR 0xD8, CHR 0xA7, CHR 0xD8, CHR 0xB9, CHR 0xD8, CHR 0xA9]
     @ '' '' @ [CHR 0xD8, CHR 0xA8, CHR 0xD8, CHR 0xB3] @ ''!''
     @ [CHR 0x0A, CHR 0xF0, CHR 0x9F, CHR 0x93, CHR 0x8B]
     @ '' '' @ [CHR 0xD8, CHR 0xA7, CHR 0xD9, CHR 0x84, CHR 0xD8, CHR 0xAA, CHR 0xD9, CHR 0x82,
       CHR 0xD8, CHR 0xB1, CHR 0xD9, CHR 0x8A, CHR 0xD8, CHR 0xB1]
     @ '' '' @ [CHR 0xD8, CHR 0xA7, CHR 0xD9, CHR 0x84, CHR 0xD9, CHR 0x85, CHR 0xD9, CHR 0x81,
       CHR 0xD8, CHR 0xB5, CHR 0xD9, CHR 0x84]
     @ '' '' @ [CHR 0xD9, CHR 0x85, CHR 0xD8, CHR 0xAA, CHR 0xD9, CHR 0x88, CHR 0xD9, CHR 0x81,
       CHR 0xD8, CHR 0xB1]
     @ '' '' @ [CHR 0xD8, CHR 0xB9, CHR 0xD9, CHR 0x84, CHR 0xD9, CHR 0x89]
     @ '' '' @ [CHR 0xD8, CHR 0xA7, CHR 0xD9, CHR 0x84, CHR 0xD8, CHR 0xAA, CHR 0xD8, CHR 0xB7,
       CHR 0xD8, CHR 0xA8, CHR 0xD9, CHR 0x8A, CHR 0xD9, CHR 0x82] @ ''.''
     @ [CHR 0x0A, CHR 0xF0, CHR 0x9F, CHR 0x93, CHR 0xB2]
     @ '' '' @ [CHR 0xD8, CHR 0xB4, CHR 0xD9, CHR 0x88, CHR 0xD9, CHR 0x81, CHR 0xD9, CHR 0x87,
       CHR 0xD8, CHR 0xA7]
     @ '' '' @ [CHR 0xD9, CHR 0x87, CHR 0xD9, CHR 0x86, CHR 0xD8, CHR 0xA7] @ '': ''"

definition POST_TEMPLATE :: "template_part list" where
  "POST_TEMPLATE =
     [Text template_head, Field ''make'' Plain, Text '' '', Field ''model'' Plain,
      Text '' - '', Field ''year'' Plain, Text '' - '', Field ''kilometers'' Comma,
      Text template_tail, Field ''tracking_link'' Plain]"

definition fallback_head :: string where
  "fallback_head = [CHR 0xF0, CHR 0x9F, CHR 0x94, CHR 0xA5] @ '' Flash Sale! ''"

definition default_query :: string where
  "default_query =
      [CHR 0x0A] @
      ''                    SELECT DISTINCT a.car_name as sf_vehicle_name,'' @ [CHR 0x0A] @
      ''                    a.vehicle_id as ajans_vehicle_id,'' @ [CHR 0x0A] @
      ''                    DATE(a.log_date) AS published_at,'' @ [CHR 0x0A] @
      ''                    b.car_make,'' @ [CHR 0x0A] @
      ''                    b.car_model,'' @ [CHR 0x0A] @
      ''                    b.car_year,'' @ [CHR 0x0A] @
      ''                    b.kilometrage'' @ [CHR 0x0A] @
      ''    FROM ajans_dealers.wholesale_vehicle_activity_logs a '' @ [CHR 0x0A] @
      ''    LEFT JOIN reporting.vehicle_acquisition_to_selling b ON a.car_name = b.car_name''
      @ [CHR 0x0A] @
      ''    WHERE DATE(log_date) = current_date() AND status_before = '' @ [CHR 0x22] @
      ''created'' @ [CHR 0x22] @ '' AND status_after = '' @ [CHR 0x22] @ ''published'' @
      [CHR 0x22, CHR 0x0A] @
      ''            ''"

subsection \<open>Dates and times\<close>

text \<open>What \<open>datetime.now()\<close> returns, by its fields.\<close>

record datetime =
  dt_year :: nat
  dt_month :: nat
  dt_day :: nat
  dt_hour :: nat
  dt_minute :: nat
  dt_second :: nat
  dt_microsecond :: nat

definition zero_pad :: "nat \<Rightarrow> string \<Rightarrow> string" where
  "zero_pad width s = replicate (width - length s) (CHR ''0'') @ s"

text \<open>\<open>t.strftime("%Y%m%d")\<close>, the year on four digits.\<close>

definition strftime_Ymd :: "datetime \<Rightarrow> string" where
  "strftime_Ymd t =
     zero_pad 4 (show_nat (dt_year t)) @ zero_pad 2 (show_nat (dt_month t))
     @ zero_pad 2 (show_nat (dt_day t))"

definition isoformat :: "datetime \<Rightarrow> string" where
  "isoformat t =
     zero_pad 4 (show_nat (dt_year t)) @ ''-'' @ zero_pad 2 (show_nat (dt_month t)) @ ''-''
     @ zero_pad 2 (show_nat (dt_day t)) @ ''T'' @ zero_pad 2 (show_nat (dt_hour t)) @ '':''
     @ zero_pad 2 (show_nat (dt_minute t)) @ '':'' @ zero_pad 2 (show_nat (dt_second t))
     @ (if dt_microsecond t = 0 then [] else ''.'' @ zero_pad 6 (show_nat (dt_microsecond t)))"

subsection \<open>Data model\<close>

text \<open>
  A cell of a numeric column of the warehouse: null (\<open>pd.isna\<close> holds), an integer, or a
  finite float, which is given by its exact value.
\<close>

datatype numcell = NNull | NInt int | NFloat rat

fun num_isna :: "numcell \<Rightarrow> bool" where
  "num_isna NNull = True"
| "num_isna c = False"

text \<open>\<open>int(c)\<close>: a float is truncated towards zero, and a null has no integer value.\<close>

fun py_int :: "numcell \<Rightarrow> py_error + int" where
  "py_int NNull = Inl TypeError"
| "py_int (NInt i) = Inr i"
| "py_int (NFloat q) = Inr (if 0 \<le> q then \<lfloor>q\<rfloor> else \<lceil>q\<rceil>)"

text \<open>
  A row of the query result, with the seven columns of the contract; \<open>'d\<close> is the type of the
  dates of the warehouse. The fields of the three records carry the name of their record in
  front of the key the source uses.
\<close>

record 'd row =
  row_sf_vehicle_name :: pyval
  row_ajans_vehicle_id :: pyval
  row_published_at :: 'd
  row_car_make :: pyval
  row_car_model :: pyval
  row_car_year :: numcell
  row_kilometrage :: numcell

record 'd car_data =
  car_sf_vehicle_name :: pyval
  car_ajans_vehicle_id :: pyval
  car_make :: pyval
  car_model :: pyval
  car_year :: pyval
  car_kilometers :: pyval
  car_published_at :: 'd

record post_data =
  post_car_id :: pyval
  post_ajans_vehicle_id :: pyval
  post_make :: pyval
  post_model :: pyval
  post_year :: pyval
  post_kilometers :: pyval
  post_tracking_link :: pyval
  post_content :: string
  post_generated_at :: string

text \<open>The JSON body of the request to the link service.\<close>

record link_request =
  link_name :: string
  final_link :: string
  sender_id :: string
  domain :: string
  deeplink :: bool

text \<open>
  The payload of the webhook is a Python dict with string keys, kept as its items in
  insertion order; \<open>AList.update\<close> is the assignment \<open>payload[key] = value\<close>.
\<close>

datatype payload_value = PayloadInt int | PayloadStr string | PayloadPost post_data

type_synonym payload = "(string \<times> payload_value) list"

subsection \<open>The outside world\<close>

text \<open>
  What \<open>requests.post\<close> does: it raises, or it returns a response with a status code and a
  body. The body of the link service is what \<open>response.json()\<close> makes of it: it raises, or it
  returns something that is no dict, or it returns a dict.
\<close>

datatype http_exc = Timeout | RequestException | OtherException

datatype 'b http_outcome = Raised http_exc | Response int 'b

datatype json_body = NotJson | JsonNoDict | JsonDict "(string \<times> pyval) list"

datatype 'd query_result = QueryError | QueryRows "'d row list"

text \<open>The warnings and errors the code asks the front end to show, and the summary.\<close>

datatype report =
    MissingColumns string
  | EnsureExactNames
  | NoCarsFound
  | FetchFailed
  | NoLinkInResponse
  | LinkStatusFailed int
  | LinkRequestFailed
  | LinkUnexpectedError
  | ContentFailed pyval
  | SkippedUnknown pyval
  | SkippedNoId pyval
  | Summary nat nat nat
  | NoPostsToSend
  | WebhookStatusFailed int
  | WebhookTimedOut
  | WebhookRequestFailed
  | WebhookUnexpectedError

text \<open>
  Every function that acts on the outside world takes the trace of the events so far and
  returns it extended by its own: the queries run on the warehouse, the requests posted to
  the link service and to the webhook, and the reports.
\<close>

datatype event =
    WarehouseQuery string
  | LinkRequest string link_request
  | WebhookPost string payload
  | Report report

text \<open>
  The collaborators, each free to answer according to everything that happened before: the
  warehouse client, the link service, the webhook and the clock.
\<close>

record 'd env =
  warehouse :: "event list \<Rightarrow> string \<Rightarrow> 'd query_result"
  link_service :: "event list \<Rightarrow> string \<Rightarrow> link_request \<Rightarrow> json_body http_outcome"
  webhook :: "event list \<Rightarrow> string \<Rightarrow> payload \<Rightarrow> string http_outcome"
  clock :: "event list \<Rightarrow> datetime"

definition dict_get :: "(string \<times> pyval) list \<Rightarrow> string \<Rightarrow> pyval" where
  "dict_get d key = (case map_of d key of None \<Rightarrow> PNone | Some v \<Rightarrow> v)"

subsection \<open>Car record normaliser\<close>

text \<open>The dict \<open>car_data\<close> that the loop of \<open>get_flash_sale_cars\<close> builds from one row.\<close>

definition car_of_row :: "'d row \<Rightarrow> py_error + 'd car_data" where
  "car_of_row r =
     (case (if \<not> num_isna (row_car_year r) then py_int (row_car_year r) else Inr 0) of
        Inl e \<Rightarrow> Inl e
      | Inr year \<Rightarrow>
          (case (if \<not> num_isna (row_kilometrage r) then py_int (row_kilometrage r) else Inr 0) of
             Inl e \<Rightarrow> Inl e
           | Inr kilometers \<Rightarrow>
               Inr \<lparr>car_sf_vehicle_name = row_sf_vehicle_name r,
                    car_ajans_vehicle_id = row_ajans_vehicle_id r,
                    car_make = (if \<not> isna (row_car_make r) then row_car_make r
                                else PStr ''Unknown''),
                    car_model = (if \<not> isna (row_car_model r) then row_car_model r
                                 else PStr ''Unknown''),
                    car_year = PInt year,
                    car_kilometers = PInt kilometers,
                    car_published_at = row_published_at r\<rparr>))"

fun rows_to_cars :: "'d row list \<Rightarrow> 'd car_data list \<Rightarrow> py_error + 'd car_data list" where
  "rows_to_cars [] cars = Inr cars"
| "rows_to_cars (r # rows) cars =
     (case car_of_row r of
        Inl e \<Rightarrow> Inl e
      | Inr car \<Rightarrow> rows_to_cars rows (cars @ [car]))"

text \<open>
  The \<open>try\<close> block of \<open>get_flash_sale_cars\<close>: the query runs, and any exception in it gives
  the empty list.
\<close>

definition fetch_cars :: "'d env \<Rightarrow> string \<Rightarrow> event list \<Rightarrow> 'd car_data list \<times> event list" where
  "fetch_cars env query tr =
     (let tr1 = tr @ [WarehouseQuery query] in
      case warehouse env tr query of
        QueryError \<Rightarrow> ([], tr1 @ [Report FetchFailed])
      | QueryRows result \<Rightarrow>
          if result = [] then ([], tr1 @ [Report NoCarsFound])
          else (case rows_to_cars result [] of
                  Inl e \<Rightarrow> ([], tr1 @ [Report FetchFailed])
                | Inr cars \<Rightarrow> (cars, tr1)))"

text \<open>
  \<open>custom_query\<close> is \<open>None\<close> or a string, and \<open>if custom_query\<close> holds for a string that is
  not empty. The guard on \<open>self.client\<close> is left out: the constructor raises unless the client
  exists.
\<close>

definition get_flash_sale_cars ::
  "'d env \<Rightarrow> string option \<Rightarrow> event list \<Rightarrow> 'd car_data list \<times> event list" where
  "get_flash_sale_cars env custom_query tr =
     (case custom_query of
        None \<Rightarrow> fetch_cars env default_query tr
      | Some q \<Rightarrow>
          if q \<noteq> [] then
            (let (is_valid, missing_columns) = validate_query_columns q in
             if \<not> is_valid then
               ([], tr @ [Report (MissingColumns (join_str '', '' missing_columns)),
                          Report EnsureExactNames])
             else fetch_cars env q tr)
          else fetch_cars env default_query tr)"

subsection \<open>Tracking link client\<close>

definition create_tracking_link ::
  "'d env \<Rightarrow> pyval \<Rightarrow> pyval \<Rightarrow> event list \<Rightarrow> pyval \<times> event list" where
  "create_tracking_link env vehicle_name ajans_vehicle_id tr =
     (let current_date = strftime_Ymd (clock env tr);
          link_name = ''flashsale-'' @ current_date @ ''-'' @ py_str vehicle_name;
          url = ''https://hi.nonito.xyz/create_tracking_link'';
          payload = \<lparr>link_name = link_name,
                     final_link = ''sylndr://car-details/'' @ py_str ajans_vehicle_id,
                     sender_id = ''6eb7c941-13b9-4eb3-8402-5310e2bc0f8e'',
                     domain = ''elajans.link'',
                     deeplink = True\<rparr>;
          tr1 = tr @ [LinkRequest url payload]
      in case link_service env tr url payload of
           Raised e \<Rightarrow>
             (PStr ''elajans.link'',
              tr1 @ [Report (if e = OtherException then LinkUnexpectedError
                             else LinkRequestFailed)])
         | Response status_code body \<Rightarrow>
             if status_code = 200 then
               (case body of
                  NotJson \<Rightarrow> (PStr ''elajans.link'', tr1 @ [Report LinkRequestFailed])
                | JsonNoDict \<Rightarrow> (PStr ''elajans.link'', tr1 @ [Report LinkUnexpectedError])
                | JsonDict response_data \<Rightarrow>
                    (let tracking_link =
                           py_or (py_or (dict_get response_data ''tracking_link'')
                                        (dict_get response_data ''link''))
                                 (dict_get response_data ''url'')
                     in if truthy tracking_link then (tracking_link, tr1)
                        else (PStr ''elajans.link'', tr1 @ [Report NoLinkInResponse])))
             else (PStr ''elajans.link'', tr1 @ [Report (LinkStatusFailed status_code)]))"

subsection \<open>Post renderer\<close>

definition generate_post_content ::
  "'d car_data \<Rightarrow> pyval \<Rightarrow> event list \<Rightarrow> string \<times> event list" where
  "generate_post_content car tracking_link tr =
     (case str_format POST_TEMPLATE
             [(''make'', car_make car), (''model'', car_model car), (''year'', car_year car),
              (''kilometers'', car_kilometers car), (''tracking_link'', tracking_link)] of
        Inr content \<Rightarrow> (content, tr)
      | Inl e \<Rightarrow>
          (fallback_head @ py_str (car_make car) @ '' '' @ py_str (car_model car) @ '' ''
           @ py_str (car_year car) @ '' - '' @ py_str tracking_link,
           tr @ [Report (ContentFailed (car_sf_vehicle_name car))]))"

subsection \<open>Pipeline orchestrator\<close>

text \<open>The variables of the loop of \<open>generate_posts\<close>, and the trace.\<close>

record gen_state =
  posts :: "post_data list"
  successful_posts :: nat
  failed_posts :: nat
  trace :: "event list"

text \<open>
  The body of the loop for one car. Nothing in it raises in this model, so the handler
  around it has no branch here.
\<close>

definition process_car :: "'d env \<Rightarrow> 'd car_data \<Rightarrow> gen_state \<Rightarrow> gen_state" where
  "process_car env car st =
     (let vehicle_name = car_sf_vehicle_name car in
      if car_make car = PStr ''Unknown'' \<or> car_model car = PStr ''Unknown'' then
        st\<lparr>failed_posts := failed_posts st + 1,
           trace := trace st @ [Report (SkippedUnknown vehicle_name)]\<rparr>
      else
        (let ajans_vehicle_id = car_ajans_vehicle_id car in
         if \<not> truthy ajans_vehicle_id then
           st\<lparr>failed_posts := failed_posts st + 1,
              trace := trace st @ [Report (SkippedNoId vehicle_name)]\<rparr>
         else
           (let (tracking_link, tr1) =
                  create_tracking_link env vehicle_name ajans_vehicle_id (trace st);
                (content, tr2) = generate_post_content car tracking_link tr1;
                post = \<lparr>post_car_id = vehicle_name,
                        post_ajans_vehicle_id = ajans_vehicle_id,
                        post_make = car_make car,
                        post_model = car_model car,
                        post_year = car_year car,
                        post_kilometers = car_kilometers car,
                        post_tracking_link = tracking_link,
                        post_content = content,
                        post_generated_at = isoformat (clock env tr2)\<rparr>
            in st\<lparr>posts := posts st @ [post],
                  successful_posts := successful_posts st + 1,
                  trace := tr2\<rparr>)))"

fun generate_posts_loop :: "'d env \<Rightarrow> 'd car_data list \<Rightarrow> gen_state \<Rightarrow> gen_state" where
  "generate_posts_loop env [] st = st"
| "generate_posts_loop env (car # cars) st = generate_posts_loop env cars (process_car env car st)"

definition generate_posts ::
  "'d env \<Rightarrow> string option \<Rightarrow> event list \<Rightarrow> post_data list \<times> event list" where
  "generate_posts env custom_query tr =
     (let (flash_sale_cars, tr1) = get_flash_sale_cars env custom_query tr in
      if flash_sale_cars = [] then ([], tr1)
      else
        (let st = generate_posts_loop env flash_sale_cars
                    \<lparr>posts = [], successful_posts = 0, failed_posts = 0, trace = tr1\<rparr>
         in (posts st,
             trace st @ [Report (Summary (length flash_sale_cars) (successful_posts st)
                                   (failed_posts st))])))"

subsection \<open>Webhook dispatcher\<close>

text \<open>The loop \<open>for i, post in enumerate(posts)\<close> that stores each post under its key.\<close>

fun add_posts :: "(nat \<times> post_data) list \<Rightarrow> payload \<Rightarrow> payload" where
  "add_posts [] payload = payload"
| "add_posts ((i, post) # rest) payload =
     add_posts rest (AList.update (''post_'' @ show_nat (i + 1)) (PayloadPost post) payload)"

definition build_payload :: "datetime \<Rightarrow> post_data list \<Rightarrow> payload" where
  "build_payload now ps =
     (let payload0 = [];
          payload1 = AList.update ''total_count'' (PayloadInt (int (length ps))) payload0;
          payload2 = AList.update ''generated_at'' (PayloadStr (isoformat now)) payload1;
          payload3 = AList.update ''source'' (PayloadStr ''flash_sale_posts_generator'') payload2
      in add_posts (enumerate 0 ps) payload3)"

definition send_posts_to_webhook ::
  "'d env \<Rightarrow> post_data list \<Rightarrow> event list \<Rightarrow> bool \<times> event list" where
  "send_posts_to_webhook env ps tr =
     (if ps = [] then (False, tr @ [Report NoPostsToSend])
      else
        (let payload = build_payload (clock env tr) ps;
             tr1 = tr @ [WebhookPost WEBHOOK_ENDPOINT payload]
         in case webhook env tr WEBHOOK_ENDPOINT payload of
              Response status_code body \<Rightarrow>
                if status_code \<in> set [200, 201, 202] then (True, tr1)
                else (False, tr1 @ [Report (WebhookStatusFailed status_code)])
            | Raised Timeout \<Rightarrow> (False, tr1 @ [Report WebhookTimedOut])
            | Raised RequestException \<Rightarrow> (False, tr1 @ [Report WebhookRequestFailed])
            | Raised OtherException \<Rightarrow> (False, tr1 @ [Report WebhookUnexpectedError])))"

text \<open>The requests a trace holds, in order.\<close>

fun link_requests :: "event list \<Rightarrow> link_request list" where
  "link_requests [] = []"
| "link_requests (LinkRequest url req # tr) = req # link_requests tr"
| "link_requests (e # tr) = link_requests tr"

fun webhook_posts :: "event list \<Rightarrow> payload list" where
  "webhook_posts [] = []"
| "webhook_posts (WebhookPost url payload # tr) = payload # webhook_posts tr"
| "webhook_posts (e # tr) = webhook_posts tr"

fun warehouse_queries :: "event list \<Rightarrow> string list" where
  "warehouse_queries [] = []"
| "warehouse_queries (WarehouseQuery q # tr) = q # warehouse_queries tr"
| "warehouse_queries (e # tr) = warehouse_queries tr"

fun reports :: "event list \<Rightarrow> report list" where
  "reports [] = []"
| "reports (Report r # tr) = r # reports tr"
| "reports (e # tr) = reports tr"

subsection \<open>Notions of the specification\<close>

text \<open>Truncation of a number to an integer: its sign and the whole part of its size.\<close>

definition truncate_towards_zero :: "rat \<Rightarrow> int" where
  "truncate_towards_zero q = (if q < 0 then - \<lfloor>- q\<rfloor> else \<lfloor>q\<rfloor>)"

text \<open>
  The car record that the specification asks of the normaliser for a row: name, id and date
  as they are, \<open>"Unknown"\<close> for a null make or model, \<open>0\<close> for a null year or mileage and the
  truncated number otherwise.
\<close>

definition normalized :: "'d row \<Rightarrow> 'd car_data" where
  "normalized r =
     \<lparr>car_sf_vehicle_name = row_sf_vehicle_name r,
      car_ajans_vehicle_id = row_ajans_vehicle_id r,
      car_make = (case row_car_make r of PNone \<Rightarrow> PStr ''Unknown'' | v \<Rightarrow> v),
      car_model = (case row_car_model r of PNone \<Rightarrow> PStr ''Unknown'' | v \<Rightarrow> v),
      car_year = PInt (case row_car_year r of NNull \<Rightarrow> 0 | NInt i \<Rightarrow> i
                        | NFloat q \<Rightarrow> truncate_towards_zero q),
      car_kilometers = PInt (case row_kilometrage r of NNull \<Rightarrow> 0 | NInt i \<Rightarrow> i
                              | NFloat q \<Rightarrow> truncate_towards_zero q),
      car_published_at = row_published_at r\<rparr>"

text \<open>
  The answer of the link service to the request that \<open>create_tracking_link\<close> makes for a
  vehicle at the trace \<open>tr\<close>.
\<close>

definition link_request_for :: "datetime \<Rightarrow> pyval \<Rightarrow> pyval \<Rightarrow> link_request" where
  "link_request_for now vehicle_name ajans_vehicle_id =
     \<lparr>link_name = ''flashsale-'' @ strftime_Ymd now @ ''-'' @ py_str vehicle_name,
      final_link = ''sylndr://car-details/'' @ py_str ajans_vehicle_id,
      sender_id = ''6eb7c941-13b9-4eb3-8402-5310e2bc0f8e'',
      domain = ''elajans.link'',
      deeplink = True\<rparr>"

definition link_answer ::
  "'d env \<Rightarrow> pyval \<Rightarrow> pyval \<Rightarrow> event list \<Rightarrow> json_body http_outcome" where
  "link_answer env vehicle_name ajans_vehicle_id tr =
     link_service env tr ''https://hi.nonito.xyz/create_tracking_link''
       (link_request_for (clock env tr) vehicle_name ajans_vehicle_id)"


subsection \<open>Example data\<close>

text \<open>
  A moment, two rows and an outside world whose three collaborators give fixed answers. The
  first row has a float as mileage; the second has no make, no year and an empty id.
\<close>

definition example_now :: datetime where
  "example_now =
     \<lparr>dt_year = 2024, dt_month = 3, dt_day = 7, dt_hour = 9, dt_minute = 5, dt_second = 0,
      dt_microsecond = 0\<rparr>"

definition example_row :: "string row" where
  "example_row =
     \<lparr>row_sf_vehicle_name = PStr ''ABC123'', row_ajans_vehicle_id = PStr ''v1'',
      row_published_at = ''2024-03-07'', row_car_make = PStr ''Toyota'',
      row_car_model = PStr ''Corolla'', row_car_year = NInt 2020,
      row_kilometrage = NFloat (100001 / 2)\<rparr>"


definition example_env ::
  "string query_result \<Rightarrow> json_body http_outcome \<Rightarrow> string http_outcome \<Rightarrow> string env" where
  "example_env rows link_response webhook_response =
     \<lparr>warehouse = (\<lambda>tr query. rows),
      link_service = (\<lambda>tr url request. link_response),
      webhook = (\<lambda>tr url payload. webhook_response),
      clock = (\<lambda>tr. example_now)\<rparr>"


subsection \<open>Properties of the string operations\<close>

lemma starts_with_iff: "starts_with s p \<longleftrightarrow> (\<exists>rest. s = p @ rest)"
  by (induction s p rule: starts_with.induct) auto

lemma py_contains_iff: "py_contains s sub \<longleftrightarrow> (\<exists>before after. s = before @ sub @ after)"
proof (induction s)
  case Nil
  then show ?case by auto
next
  case (Cons c cs)
  show ?case
  proof
    assume "py_contains (c # cs) sub"
    then consider "starts_with (c # cs) sub" | "py_contains cs sub" by auto
    then show "\<exists>before after. c # cs = before @ sub @ after"
    proof cases
      case 1
      then obtain rest where "c # cs = sub @ rest" by (auto simp: starts_with_iff)
      then have "c # cs = [] @ sub @ rest" by simp
      then show ?thesis by blast
    next
      case 2
      then obtain b a where "cs = b @ sub @ a" using Cons.IH by auto
      then have "c # cs = (c # b) @ sub @ a" by simp
      then show ?thesis by blast
    qed
  next
    assume "\<exists>before after. c # cs = before @ sub @ after"
    then obtain b a where eq: "c # cs = b @ sub @ a" by auto
    show "py_contains (c # cs) sub"
    proof (cases b)
      case Nil
      with eq have "starts_with (c # cs) sub" by (auto simp: starts_with_iff)
      then show ?thesis by simp
    next
      case (Cons b0 bs)
      with eq have "cs = bs @ sub @ a" by simp
      then have "py_contains cs sub" using Cons.IH by auto
      then show ?thesis by simp
    qed
  qed
qed

lemma collect_missing_filter:
  "collect_missing ql columns acc = acc @ filter (\<lambda>c. \<not> py_contains ql (lower c)) columns"
  by (induction columns arbitrary: acc) auto

lemma capital_forms_eval:
  "capital_forms =
     [(65, CHR ''a''), (66, CHR ''b''), (67, CHR ''c''), (68, CHR ''d''), (69, CHR ''e''),
      (70, CHR ''f''), (71, CHR ''g''), (72, CHR ''h''), (73, CHR ''i''), (74, CHR ''j''),
      (75, CHR ''k''), (76, CHR ''l''), (77, CHR ''m''), (78, CHR ''n''), (79, CHR ''o''),
      (80, CHR ''p''), (81, CHR ''q''), (82, CHR ''r''), (83, CHR ''s''), (84, CHR ''t''),
      (85, CHR ''u''), (86, CHR ''v''), (87, CHR ''w''), (88, CHR ''x''), (89, CHR ''y''),
      (90, CHR ''z''), (8490, CHR ''k'')]"
  by (simp add: capital_forms_def)

lemma same_letter_column_all:
  "list_all (\<lambda>d. \<forall>c. same_letter c d \<longleftrightarrow>
       c = of_char d \<or> (97 \<le> (of_char d :: nat) \<and> c + 32 = of_char d)
       \<or> (c = 0x212A \<and> d = CHR ''k'')) column_letters"
  unfolding column_letters_def same_letter_def capital_forms_eval
  by simp


lemma same_letter_column:
  assumes "d \<in> set column_letters"
  shows "same_letter c d \<longleftrightarrow>
       c = of_char d \<or> (97 \<le> (of_char d :: nat) \<and> c + 32 = of_char d)
       \<or> (c = 0x212A \<and> d = CHR ''k'')"
  using same_letter_column_all assms by (simp add: list_all_iff)

lemma column_letter_code_all:
  "list_all (\<lambda>d. (of_char d :: nat) = 95 \<or> 97 \<le> (of_char d :: nat) \<and> (of_char d :: nat) \<le> 122)
     column_letters"
  unfolding column_letters_def by simp

lemma column_letter_code:
  assumes "d \<in> set column_letters"
  shows "(of_char d :: nat) = 95 \<or> 97 \<le> (of_char d :: nat) \<and> (of_char d :: nat) \<le> 122"
  using column_letter_code_all assms by (simp add: list_all_iff)

lemma lower_ascii_column:
  assumes "(c :: nat) < 128" "d \<in> set column_letters"
  shows "lower_ascii (char_of c) = d \<longleftrightarrow>
           c = of_char d \<or> (97 \<le> (of_char d :: nat) \<and> c + 32 = of_char d)"
proof -
  have n: "(of_char d :: nat) = 95 \<or> 97 \<le> (of_char d :: nat) \<and> (of_char d :: nat) \<le> 122"
    using assms(2) by (rule column_letter_code)
  have e: "\<And>x. x = d \<longleftrightarrow> (of_char x :: nat) = of_char d" by simp
  have m: "c mod 256 = c" "65 \<le> c \<and> c \<le> 90 \<Longrightarrow> (c + 32) mod 256 = c + 32"
    using assms(1) by simp_all
  show ?thesis
  proof (cases "65 \<le> c \<and> c \<le> 90")
    case True
    then have "lower_ascii (char_of c) = char_of (c + 32)"
      by (simp add: lower_ascii_def m)
    then have "lower_ascii (char_of c) = d \<longleftrightarrow> c + 32 = of_char d"
      using m(2)[OF True] by (subst e) simp
    with True n show ?thesis by auto
  next
    case False
    then have "lower_ascii (char_of c) = char_of c"
      by (auto simp add: lower_ascii_def m)
    then have "lower_ascii (char_of c) = d \<longleftrightarrow> c = of_char d"
      using m(1) by (subst e) simp
    with False n show ?thesis by auto
  qed
qed

lemma lower_ascii_letter:
  assumes "d \<in> set column_letters"
  shows "(of_char d :: nat) < 128 \<and> lower_ascii d = d"
  using column_letter_code[OF assms] by (auto simp: lower_ascii_def)

lemma starts_with_NonAscii:
  "starts_with (NonAscii # l) (map Ascii ds) \<longleftrightarrow> ds = []"
  by (cases ds) simp_all

lemma starts_with_block:
  assumes d: "d \<in> set column_letters" and di: "ds = [] \<longrightarrow> d \<noteq> CHR ''i''"
  shows "starts_with (lower_code_point c @ l) (Ascii d # map Ascii ds) \<longleftrightarrow>
           same_letter c d \<and> starts_with l (map Ascii ds)"
proof -
  have n: "(of_char d :: nat) = 95 \<or> 97 \<le> (of_char d :: nat) \<and> (of_char d :: nat) \<le> 122"
    using d by (rule column_letter_code)
  consider "c < 128" | "c = 0x212A" | "c = 0x130" | "128 \<le> c" "c \<noteq> 0x212A" "c \<noteq> 0x130"
    by linarith
  then show ?thesis
  proof cases
    case 1
    then have "lower_code_point c = [Ascii (lower_ascii (char_of c))]"
      by (simp add: lower_code_point_def)
    moreover have "same_letter c d \<longleftrightarrow> lower_ascii (char_of c) = d"
      using 1 by (simp add: same_letter_column[OF d] lower_ascii_column[OF 1 d])
    ultimately show ?thesis by simp
  next
    case 2
    then have "lower_code_point c = [Ascii CHR ''k'']"
      by (simp add: lower_code_point_def)
    moreover have "same_letter c d \<longleftrightarrow> d = CHR ''k''"
      using 2 n by (auto simp add: same_letter_column[OF d])
    ultimately show ?thesis by auto
  next
    case 3
    then have "lower_code_point c = [Ascii CHR ''i'', NonAscii]"
      by (simp add: lower_code_point_def)
    moreover have "\<not> same_letter c d"
      using 3 n by (auto simp add: same_letter_column[OF d])
    ultimately show ?thesis using di by (auto simp: starts_with_NonAscii)
  next
    case 4
    then have "lower_code_point c = [NonAscii]"
      by (simp add: lower_code_point_def)
    moreover have "\<not> same_letter c d"
      using 4 n by (auto simp add: same_letter_column[OF d])
    ultimately show ?thesis by simp
  qed
qed

lemma starts_with_lower:
  assumes "set name \<subseteq> set column_letters" "name = [] \<or> last name \<noteq> CHR ''i''"
  shows "starts_with (concat (map lower_code_point q)) (map Ascii name) \<longleftrightarrow>
           (\<exists>part rest. q = part @ rest \<and> list_all2 same_letter part name)"
  using assms
proof (induction q arbitrary: name)
  case Nil
  then show ?case by (cases name) auto
next
  case (Cons c q)
  show ?case
  proof (cases name)
    case Nil
    then show ?thesis by auto
  next
    case (Cons d ds)
    with Cons.prems have d: "d \<in> set column_letters" and ds: "set ds \<subseteq> set column_letters"
      and l: "ds = [] \<or> last ds \<noteq> CHR ''i''" and di: "ds = [] \<longrightarrow> d \<noteq> CHR ''i''"
      by (auto split: if_splits)
    have "(\<exists>part rest. c # q = part @ rest \<and> list_all2 same_letter part (d # ds)) \<longleftrightarrow>
          same_letter c d \<and> (\<exists>part rest. q = part @ rest \<and> list_all2 same_letter part ds)"
      by (auto simp: list_all2_Cons2 Cons_eq_append_conv)
    then show ?thesis
      using Cons.IH[OF ds l] starts_with_block[OF d di, of c "concat (map lower_code_point q)"]
      by (simp add: Cons)
  qed
qed

lemma occurs_ignoring_case_Cons:
  "occurs_ignoring_case name (c # q) \<longleftrightarrow>
     (\<exists>part rest. c # q = part @ rest \<and> list_all2 same_letter part name)
     \<or> occurs_ignoring_case name q"
proof
  assume "occurs_ignoring_case name (c # q)"
  then obtain b p a where e: "c # q = b @ p @ a" and m: "list_all2 same_letter p name"
    unfolding occurs_ignoring_case_def by blast
  show "(\<exists>part rest. c # q = part @ rest \<and> list_all2 same_letter part name)
     \<or> occurs_ignoring_case name q"
  proof (cases b)
    case Nil
    with e m show ?thesis by auto
  next
    case (Cons x b')
    with e have "q = b' @ p @ a" by simp
    with m show ?thesis unfolding occurs_ignoring_case_def by blast
  qed
next
  assume "(\<exists>part rest. c # q = part @ rest \<and> list_all2 same_letter part name)
     \<or> occurs_ignoring_case name q"
  then show "occurs_ignoring_case name (c # q)"
  proof
    assume "\<exists>part rest. c # q = part @ rest \<and> list_all2 same_letter part name"
    then obtain p a where "c # q = [] @ p @ a" "list_all2 same_letter p name" by auto
    then show ?thesis unfolding occurs_ignoring_case_def by blast
  next
    assume "occurs_ignoring_case name q"
    then obtain b p a where "q = b @ p @ a" "list_all2 same_letter p name"
      unfolding occurs_ignoring_case_def by blast
    then have "c # q = (c # b) @ p @ a \<and> list_all2 same_letter p name" by simp
    then show ?thesis unfolding occurs_ignoring_case_def by blast
  qed
qed

lemma py_contains_block:
  assumes "name \<noteq> []"
  shows "py_contains (lower_code_point c @ l) (map Ascii name) \<longleftrightarrow>
           starts_with (lower_code_point c @ l) (map Ascii name) \<or> py_contains l (map Ascii name)"
  using assms by (auto simp: lower_code_point_def starts_with_NonAscii)

lemma contains_lower:
  assumes "set name \<subseteq> set column_letters" "name \<noteq> []" "last name \<noteq> CHR ''i''"
  shows "py_contains (concat (map lower_code_point q)) (map Ascii name) \<longleftrightarrow>
           occurs_ignoring_case name q"
proof (induction q)
  case Nil
  show ?case using assms(2) by (simp add: occurs_ignoring_case_def)
next
  case (Cons c q)
  have "starts_with (concat (map lower_code_point (c # q))) (map Ascii name) \<longleftrightarrow>
           (\<exists>part rest. c # q = part @ rest \<and> list_all2 same_letter part name)"
    using assms by (intro starts_with_lower) auto
  then show ?case
    using Cons.IH py_contains_block[OF assms(2), of c "concat (map lower_code_point q)"]
    by (simp add: occurs_ignoring_case_Cons)
qed

lemma lower_column:
  "set name \<subseteq> set column_letters \<Longrightarrow> lower name = map Ascii name"
proof (induction name)
  case Nil
  show ?case by (simp add: lower_def)
next
  case (Cons d ds)
  then have d: "(of_char d :: nat) < 128" "lower_ascii d = d" and "lower ds = map Ascii ds"
    using lower_ascii_letter[of d] by auto
  then show ?case
    by (simp add: lower_def lower_code_point_def Let_def)
qed

lemma required_columns_letters:
  "\<forall>name \<in> set required_columns.
     set name \<subseteq> set column_letters \<and> name \<noteq> [] \<and> last name \<noteq> CHR ''i''"
  by (simp add: required_columns_def column_letters_def)

lemma required_column_occurs:
  assumes "name \<in> set required_columns"
  shows "py_contains (lower query) (lower name) \<longleftrightarrow> occurs_ignoring_case name (utf8_decode query)"
proof -
  from assms required_columns_letters
  have n: "set name \<subseteq> set column_letters" "name \<noteq> []" "last name \<noteq> CHR ''i''"
    by auto
  show ?thesis
    using contains_lower[OF n, of "utf8_decode query"] lower_column[OF n(1)]
    by (simp add: lower_def)
qed

lemma lower_Nil: "lower [] = []"
  by (simp add: lower_def)

lemma lower_ascii_Cons:
  "(of_char c :: nat) < 128 \<Longrightarrow> lower (c # cs) = Ascii (lower_ascii c) # lower cs"
  by (simp add: lower_def lower_code_point_def Let_def)

lemma lower_kelvin_Cons:
  "lower (CHR 0xE2 # CHR 0x84 # CHR 0xAA # cs) = Ascii CHR ''k'' # lower cs"
  by (simp add: lower_def lower_code_point_def Let_def continuation_def)

lemma lower_dotted_Cons:
  "lower (CHR 0xC4 # CHR 0xB0 # cs) = Ascii CHR ''i'' # NonAscii # lower cs"
  by (simp add: lower_def lower_code_point_def Let_def continuation_def)

lemma lower_ascii_capitals:
  "lower_ascii CHR ''A'' = CHR ''a''" "lower_ascii CHR ''B'' = CHR ''b''" "lower_ascii CHR ''C'' = CHR ''c''"
  "lower_ascii CHR ''D'' = CHR ''d''" "lower_ascii CHR ''E'' = CHR ''e''" "lower_ascii CHR ''F'' = CHR ''f''"
  "lower_ascii CHR ''G'' = CHR ''g''" "lower_ascii CHR ''H'' = CHR ''h''" "lower_ascii CHR ''I'' = CHR ''i''"
  "lower_ascii CHR ''J'' = CHR ''j''" "lower_ascii CHR ''K'' = CHR ''k''" "lower_ascii CHR ''L'' = CHR ''l''"
  "lower_ascii CHR ''M'' = CHR ''m''" "lower_ascii CHR ''N'' = CHR ''n''" "lower_ascii CHR ''O'' = CHR ''o''"
  "lower_ascii CHR ''P'' = CHR ''p''" "lower_ascii CHR ''Q'' = CHR ''q''" "lower_ascii CHR ''R'' = CHR ''r''"
  "lower_ascii CHR ''S'' = CHR ''s''" "lower_ascii CHR ''T'' = CHR ''t''" "lower_ascii CHR ''U'' = CHR ''u''"
  "lower_ascii CHR ''V'' = CHR ''v''" "lower_ascii CHR ''W'' = CHR ''w''" "lower_ascii CHR ''X'' = CHR ''x''"
  "lower_ascii CHR ''Y'' = CHR ''y''" "lower_ascii CHR ''Z'' = CHR ''z''"
  by code_simp+

lemma lower_ascii_other:
  "\<not> (65 \<le> (of_char c :: nat) \<and> (of_char c :: nat) \<le> 90) \<Longrightarrow> lower_ascii c = c"
  by (auto simp add: lower_ascii_def Let_def)

lemmas lower_eval = lower_Nil lower_ascii_Cons lower_kelvin_Cons lower_dotted_Cons
  lower_ascii_capitals lower_ascii_other



lemma column_lower:
  "lower ''sf_vehicle_name'' = map Ascii ''sf_vehicle_name''"
  "lower ''ajans_vehicle_id'' = map Ascii ''ajans_vehicle_id''"
  "lower ''published_at'' = map Ascii ''published_at''"
  "lower ''car_make'' = map Ascii ''car_make''"
  "lower ''car_model'' = map Ascii ''car_model''"
  "lower ''car_year'' = map Ascii ''car_year''"
  "lower ''kilometrage'' = map Ascii ''kilometrage''"
  by (simp_all add: lower_eval)

lemma example_lower:
  "lower ''SELECT car_name AS sf_vehicle_name, car_make FROM cars'' =
   map Ascii ''select car_name as sf_vehicle_name, car_make from cars''"
  by (simp add: lower_eval)

lemma validate_example:
  "validate_query_columns ''SELECT car_name AS sf_vehicle_name, car_make FROM cars'' =
     (False, [''ajans_vehicle_id'', ''published_at'', ''car_model'', ''car_year'', ''kilometrage''])"
  unfolding validate_query_columns_def Let_def collect_missing_filter required_columns_def
    example_lower filter.simps column_lower
  by code_simp

lemma validate_empty: "validate_query_columns [] = (False, required_columns)"
  unfolding validate_query_columns_def Let_def collect_missing_filter required_columns_def
    lower_Nil filter.simps column_lower
  by code_simp

lemma example_capitals_lower:
  "lower example_query_capitals =
   map Ascii ''select sf_vehicle_name, ajans_vehicle_id, published_at, car_make, car_model, car_year, kilometrage from cars''"
  by (simp add: example_query_capitals_def lower_eval)

lemma validate_capitals: "validate_query_columns example_query_capitals = (True, [])"
  unfolding validate_query_columns_def Let_def collect_missing_filter required_columns_def
    example_capitals_lower filter.simps column_lower
  by code_simp

lemma example_kelvin_lower:
  "lower example_query_kelvin =
   map Ascii ''select sf_vehicle_name, ajans_vehicle_id, published_at, car_make, car_model, car_year, kilometrage from cars''"
  by (simp add: example_query_kelvin_def lower_eval)

lemma validate_kelvin: "validate_query_columns example_query_kelvin = (True, [])"
  unfolding validate_query_columns_def Let_def collect_missing_filter required_columns_def
    example_kelvin_lower filter.simps column_lower
  by code_simp

lemma example_dotted_lower:
  "lower example_query_dotted =
   map Ascii ''select sf_vehicle_name, ajans_vehicle_id, publi'' @ [NonAscii]
   @ map Ascii ''shed_at, car_make, car_model, car_year, kilometrage from cars''"
  by (simp add: example_query_dotted_def lower_eval)

lemma validate_dotted:
  "validate_query_columns example_query_dotted = (False, [''published_at''])"
  unfolding validate_query_columns_def Let_def collect_missing_filter required_columns_def
    example_dotted_lower filter.simps column_lower
  by code_simp

subsection \<open>Properties of the model\<close>

lemma digit_chars:
  "digit_char 0 = CHR ''0''" "digit_char 1 = CHR ''1''" "digit_char 2 = CHR ''2''"
  "digit_char 3 = CHR ''3''" "digit_char 4 = CHR ''4''" "digit_char 5 = CHR ''5''"
  "digit_char 6 = CHR ''6''" "digit_char 7 = CHR ''7''" "digit_char 8 = CHR ''8''"
  "digit_char 9 = CHR ''9''" "digit_char (Suc 0) = CHR ''1''"
  by code_simp+

lemma show_nat_digit: "n < 10 \<Longrightarrow> show_nat n = [digit_char n]"
  by (simp add: show_nat.simps)

lemma show_nat_step: "10 \<le> n \<Longrightarrow> show_nat n = show_nat (n div 10) @ [digit_char (n mod 10)]"
  by (subst show_nat.simps) simp

lemma show_nat_snoc:
  "0 < n \<Longrightarrow> k < 10 \<Longrightarrow> show_nat (10 * n + k) = show_nat n @ [digit_char k]"
  by (subst show_nat_step) simp_all

lemma show_nat_not_Nil: "show_nat n \<noteq> []"
  by (subst show_nat.simps) simp

lemma length_show_nat_ge2: "10 \<le> n \<Longrightarrow> 2 \<le> length (show_nat n)"
proof -
  assume "10 \<le> n"
  then have "length (show_nat n) = length (show_nat (n div 10)) + 1"
    by (simp add: show_nat_step)
  moreover have "length (show_nat (n div 10)) \<noteq> 0"
    using show_nat_not_Nil[of "n div 10"] by simp
  ultimately show ?thesis by linarith
qed

lemma digit_char_inj: "a < 10 \<Longrightarrow> b < 10 \<Longrightarrow> digit_char a = digit_char b \<Longrightarrow> a = b"
proof -
  assume a: "a < 10" and b: "b < 10" and e: "digit_char a = digit_char b"
  from e have "(of_char (char_of (48 + a)) :: nat) = of_char (char_of (48 + b))"
    by (simp add: digit_char_def)
  then have "(48 + a) mod 256 = (48 + b) mod 256" by (simp only: of_char_of)
  with a b show "a = b" by simp
qed

lemma show_nat_inj: "show_nat a = show_nat b \<Longrightarrow> a = b"
proof (induction a arbitrary: b rule: show_nat.induct)
  case (1 a)
  show ?case
  proof (cases "a < 10")
    case True
    then have la: "length (show_nat a) = 1" by (simp add: show_nat_digit)
    have "b < 10"
    proof (rule ccontr)
      assume "\<not> b < 10"
      then have "2 \<le> length (show_nat b)" by (simp add: length_show_nat_ge2)
      with la "1.prems" show False by simp
    qed
    with True "1.prems" show ?thesis by (simp add: show_nat_digit digit_char_inj)
  next
    case False
    then have ge: "10 \<le> a" by simp
    have geb: "10 \<le> b"
    proof (rule ccontr)
      assume "\<not> 10 \<le> b"
      then have "length (show_nat b) = 1" by (simp add: show_nat_digit)
      moreover from ge have "2 \<le> length (show_nat a)" by (rule length_show_nat_ge2)
      ultimately show False using "1.prems" by simp
    qed
    from "1.prems" have "show_nat (a div 10) @ [digit_char (a mod 10)]
        = show_nat (b div 10) @ [digit_char (b mod 10)]"
      using show_nat_step[OF ge] show_nat_step[OF geb] by simp
    then have e: "show_nat (a div 10) = show_nat (b div 10)"
      and d: "digit_char (a mod 10) = digit_char (b mod 10)"
      by simp_all
    from False e have q: "a div 10 = b div 10" by (rule "1.IH")
    have "a mod 10 < 10" "b mod 10 < 10" by simp_all
    with d have r: "a mod 10 = b mod 10" by (rule digit_char_inj[rotated 2])
    have "a = 10 * (a div 10) + a mod 10" by simp
    also have "\<dots> = 10 * (b div 10) + b mod 10" using q r by simp
    also have "\<dots> = b" by simp
    finally show ?thesis .
  qed
qed

lemma py_int_total:
  "(if \<not> num_isna c then py_int c else Inr 0) =
     Inr (case c of NNull \<Rightarrow> 0 | NInt i \<Rightarrow> i | NFloat q \<Rightarrow> truncate_towards_zero q)"
  by (cases c) (auto simp: truncate_towards_zero_def ceiling_def)

lemma isna_default: "(if \<not> isna v then v else d) = (case v of PNone \<Rightarrow> d | w \<Rightarrow> w)"
  by (cases v) auto

lemma car_of_row_normalized: "car_of_row r = Inr (normalized r)"
  unfolding car_of_row_def py_int_total isna_default normalized_def by simp

lemma rows_to_cars_map: "rows_to_cars rows cars = Inr (cars @ map normalized rows)"
  by (induction rows arbitrary: cars) (simp_all add: car_of_row_normalized)

lemma fetch_cars_rows:
  "warehouse env tr query = QueryRows rows \<Longrightarrow>
     fetch_cars env query tr =
       (map normalized rows,
        tr @ [WarehouseQuery query] @ (if rows = [] then [Report NoCarsFound] else []))"
  by (simp add: fetch_cars_def rows_to_cars_map)

lemma warehouse_queries_append [simp]:
  "warehouse_queries (a @ b) = warehouse_queries a @ warehouse_queries b"
  by (induction a rule: warehouse_queries.induct) auto

lemma link_requests_append [simp]:
  "link_requests (a @ b) = link_requests a @ link_requests b"
  by (induction a rule: link_requests.induct) auto

lemma webhook_posts_append [simp]:
  "webhook_posts (a @ b) = webhook_posts a @ webhook_posts b"
  by (induction a rule: webhook_posts.induct) auto

lemma reports_append [simp]:
  "reports (a @ b) = reports a @ reports b"
  by (induction a rule: reports.induct) auto

lemma fetch_cars_queries:
  "warehouse_queries (snd (fetch_cars env query tr)) = warehouse_queries tr @ [query]"
  by (simp add: fetch_cars_def Let_def split: query_result.splits sum.splits)



lemma ctl_200:
  "link_answer env v i tr = Response 200 body \<Longrightarrow>
     fst (create_tracking_link env v i tr) =
       (case body of
          JsonDict d \<Rightarrow>
            if truthy (dict_get d ''tracking_link'') then dict_get d ''tracking_link''
            else if truthy (dict_get d ''link'') then dict_get d ''link''
            else if truthy (dict_get d ''url'') then dict_get d ''url''
            else PStr ''elajans.link''
        | _ \<Rightarrow> PStr ''elajans.link'')"
  by (simp add: create_tracking_link_def link_answer_def link_request_for_def Let_def py_or_def
      split: json_body.splits)

lemma ctl_requests:
  "link_requests (snd (create_tracking_link env v i tr)) =
     link_requests tr @ [link_request_for (clock env tr) v i]"
  by (simp add: create_tracking_link_def link_request_for_def Let_def
      split: http_outcome.splits json_body.splits)

lemma zero_pad2:
  "m < 100 \<Longrightarrow> zero_pad 2 (show_nat m) = [digit_char (m div 10), digit_char (m mod 10)]"
proof (cases "m < 10")
  case True
  then show ?thesis by (simp add: zero_pad_def show_nat_digit digit_chars)
next
  case False
  assume "m < 100"
  with False have "show_nat m = [digit_char (m div 10), digit_char (m mod 10)]"
    by (simp add: show_nat_step show_nat_digit)
  then show ?thesis by (simp add: zero_pad_def)
qed

lemma show_nat_two_more:
  assumes "0 < n" "m < 100"
  shows "show_nat (100 * n + m) = show_nat n @ [digit_char (m div 10), digit_char (m mod 10)]"
proof -
  have 1: "100 * n + m = 10 * (10 * n + m div 10) + m mod 10" by simp
  have "show_nat (10 * (10 * n + m div 10) + m mod 10)
      = show_nat (10 * n + m div 10) @ [digit_char (m mod 10)]"
    using assms by (intro show_nat_snoc) simp_all
  moreover have "show_nat (10 * n + m div 10) = show_nat n @ [digit_char (m div 10)]"
    using assms by (intro show_nat_snoc) simp_all
  ultimately show ?thesis unfolding 1 by simp
qed

lemma show_nat_year:
  assumes "1000 \<le> y" "y \<le> 9999"
  shows "length (show_nat y) = 4"
proof -
  define a where "a = y div 100"
  define b where "b = y mod 100"
  have y: "y = 100 * a + b" and b: "b < 100" by (simp_all add: a_def b_def)
  have "10 * 100 \<le> y" using assms by simp
  then have a1: "10 \<le> a" unfolding a_def by (subst less_eq_div_iff_mult_less_eq) simp_all
  have "y < 100 * 100" using assms by simp
  then have a2: "a < 100" unfolding a_def by (subst div_less_iff_less_mult) simp_all
  note a = a1 a2
  have "show_nat a = show_nat (a div 10) @ [digit_char (a mod 10)]" using a by (simp add: show_nat_step)
  moreover have "a div 10 < 10" using a by simp
  ultimately have "length (show_nat a) = 2" by (simp add: show_nat_digit)
  moreover have "show_nat y = show_nat a @ [digit_char (b div 10), digit_char (b mod 10)]"
    unfolding y using a b by (intro show_nat_two_more) simp_all
  ultimately show ?thesis by simp
qed

lemma strftime_Ymd_number:
  assumes "1000 \<le> dt_year t" "dt_year t \<le> 9999" "dt_month t < 100" "dt_day t < 100"
  shows "strftime_Ymd t = show_nat (dt_year t * 10000 + dt_month t * 100 + dt_day t)"
proof -
  have y: "zero_pad 4 (show_nat (dt_year t)) = show_nat (dt_year t)"
    using assms by (simp add: zero_pad_def show_nat_year)
  have e: "dt_year t * 10000 + dt_month t * 100 + dt_day t
      = 100 * (100 * dt_year t + dt_month t) + dt_day t"
    by simp
  have "show_nat (100 * (100 * dt_year t + dt_month t) + dt_day t)
      = show_nat (100 * dt_year t + dt_month t)
        @ [digit_char (dt_day t div 10), digit_char (dt_day t mod 10)]"
    using assms by (intro show_nat_two_more) simp_all
  moreover have "show_nat (100 * dt_year t + dt_month t)
      = show_nat (dt_year t) @ [digit_char (dt_month t div 10), digit_char (dt_month t mod 10)]"
    using assms by (intro show_nat_two_more) simp_all
  ultimately show ?thesis using assms unfolding e by (simp add: strftime_Ymd_def y zero_pad2)
qed

lemma length_strftime_Ymd:
  assumes "1000 \<le> dt_year t" "dt_year t \<le> 9999" "dt_month t < 100" "dt_day t < 100"
  shows "length (strftime_Ymd t) = 8"
proof -
  have "zero_pad 4 (show_nat (dt_year t)) = show_nat (dt_year t)"
    using assms by (simp add: zero_pad_def show_nat_year)
  then show ?thesis
    using assms by (simp add: strftime_Ymd_def zero_pad2 show_nat_year)
qed



lemma example_link_answer:
  "link_answer (example_env rows response hook) v i tr = response"
  by (simp add: link_answer_def example_env_def)

lemma show_nat_example: "show_nat 20240307 = ''20240307''"
  by (simp add: show_nat.simps digit_chars)

subsection \<open>Claims\<close>

text \<open>
  C3. For every query string, \<open>validate_query_columns\<close> returns as missing exactly those of
  the seven required column names that do not occur in the characters of the query up to
  letter case, in the order of the contract, and it returns valid exactly when nothing is
  missing. The function takes the query and returns the pair: it has no other input and no
  effect.
\<close>

theorem validate_query_columns_missing:
  "snd (validate_query_columns query) =
     filter (\<lambda>name. \<not> occurs_ignoring_case name (utf8_decode query))
       [''sf_vehicle_name'', ''ajans_vehicle_id'', ''published_at'', ''car_make'',
        ''car_model'', ''car_year'', ''kilometrage'']
   \<and> (fst (validate_query_columns query) \<longleftrightarrow> snd (validate_query_columns query) = [])"
proof -
  have "filter (\<lambda>c. \<not> py_contains (lower query) (lower c)) required_columns =
        filter (\<lambda>name. \<not> occurs_ignoring_case name (utf8_decode query)) required_columns"
    by (rule filter_cong) (simp_all add: required_column_occurs)
  then show ?thesis
    by (simp add: validate_query_columns_def Let_def collect_missing_filter required_columns_def)
qed

theorem validate_query_columns_missing_witness:
  "validate_query_columns example_query_capitals = (True, [])
   \<and> filter (\<lambda>name. \<not> occurs_ignoring_case name (utf8_decode example_query_capitals))
       [''sf_vehicle_name'', ''ajans_vehicle_id'', ''published_at'', ''car_make'',
        ''car_model'', ''car_year'', ''kilometrage''] = []
   \<and> validate_query_columns example_query_kelvin = (True, [])
   \<and> filter (\<lambda>name. \<not> occurs_ignoring_case name (utf8_decode example_query_kelvin))
       [''sf_vehicle_name'', ''ajans_vehicle_id'', ''published_at'', ''car_make'',
        ''car_model'', ''car_year'', ''kilometrage''] = []
   \<and> validate_query_columns example_query_dotted = (False, [''published_at''])
   \<and> filter (\<lambda>name. \<not> occurs_ignoring_case name (utf8_decode example_query_dotted))
       [''sf_vehicle_name'', ''ajans_vehicle_id'', ''published_at'', ''car_make'',
        ''car_model'', ''car_year'', ''kilometrage''] = [''published_at'']"
  using validate_query_columns_missing[of example_query_capitals, THEN conjunct1, symmetric]
    validate_query_columns_missing[of example_query_kelvin, THEN conjunct1, symmetric]
    validate_query_columns_missing[of example_query_dotted, THEN conjunct1, symmetric]
  by (simp only: validate_capitals validate_kelvin validate_dotted snd_conv simp_thms)



text \<open>
  C8, as stated, fails for the custom query \<open>""\<close>: it does not pass validation, yet \<open>if
  custom_query\<close> takes it for no query, so the default query runs and its cars are returned
  without any report.
\<close>

theorem custom_query_empty_counterexample:
  "\<not> fst (validate_query_columns '''')
   \<and> get_flash_sale_cars (example_env (QueryRows [example_row]) (Raised Timeout) (Raised Timeout))
       (Some '''') [] =
      ([\<lparr>car_sf_vehicle_name = PStr ''ABC123'', car_ajans_vehicle_id = PStr ''v1'',
         car_make = PStr ''Toyota'', car_model = PStr ''Corolla'', car_year = PInt 2020,
         car_kilometers = PInt 50000, car_published_at = ''2024-03-07''\<rparr>],
       [WarehouseQuery default_query])"
  by (simp add: validate_empty required_columns_def
      get_flash_sale_cars_def fetch_cars_rows example_env_def normalized_def example_row_def
      truncate_towards_zero_def floor_eq_iff)

text \<open>
  C8, amended. For every custom query that is not empty and fails column validation,
  \<open>get_flash_sale_cars\<close> reports the missing columns, runs no query on the warehouse and
  returns the empty list. Without a custom query, and with the empty string as custom query,
  the default query is run without validation.
\<close>

theorem get_flash_sale_cars_custom_query:
  "(query \<noteq> [] \<and> \<not> fst (validate_query_columns query) \<longrightarrow>
      get_flash_sale_cars env (Some query) tr =
        ([], tr @ [Report (MissingColumns (join_str '', '' (snd (validate_query_columns query)))),
                   Report EnsureExactNames])
      \<and> warehouse_queries (snd (get_flash_sale_cars env (Some query) tr)) = warehouse_queries tr)
   \<and> get_flash_sale_cars env None tr = fetch_cars env default_query tr
   \<and> get_flash_sale_cars env (Some []) tr = fetch_cars env default_query tr
   \<and> warehouse_queries (snd (get_flash_sale_cars env None tr)) = warehouse_queries tr @ [default_query]"
  by (auto simp: get_flash_sale_cars_def fetch_cars_queries split: prod.splits)

theorem get_flash_sale_cars_custom_query_witness:
  "get_flash_sale_cars (example_env (QueryRows [example_row]) (Raised Timeout) (Raised Timeout))
       (Some ''SELECT car_name AS sf_vehicle_name, car_make FROM cars'') [] =
     ([], [Report (MissingColumns
                    ''ajans_vehicle_id, published_at, car_model, car_year, kilometrage''),
           Report EnsureExactNames])"
  using get_flash_sale_cars_custom_query
    [of "''SELECT car_name AS sf_vehicle_name, car_make FROM cars''"
        "example_env (QueryRows [example_row]) (Raised Timeout) (Raised Timeout)" "[]"]
  by (simp add: validate_example)




text \<open>
  C10. On a 200 response with a JSON object, the lookup takes the first of the values at
  \<open>tracking_link\<close>, \<open>link\<close>, \<open>url\<close> that is truthy, where an absent key reads as \<open>None\<close>; a
  key that is present with a falsy value (the empty string, \<open>0\<close>, \<open>False\<close>, \<open>None\<close>) is passed
  over like an absent one, and when none of the three is truthy the result is the fallback
  \<open>"elajans.link"\<close>.
\<close>

theorem create_tracking_link_falls_through:
  assumes "link_answer env v i tr = Response 200 (JsonDict d)"
  shows "fst (create_tracking_link env v i tr) =
           (if truthy (dict_get d ''tracking_link'') then dict_get d ''tracking_link''
            else if truthy (dict_get d ''link'') then dict_get d ''link''
            else if truthy (dict_get d ''url'') then dict_get d ''url''
            else PStr ''elajans.link'')"
  using ctl_200[OF assms] by simp

theorem create_tracking_link_falls_through_witness:
  "fst (create_tracking_link
          (example_env QueryError
             (Response 200 (JsonDict [(''tracking_link'', PStr []), (''link'', PInt 0),
                                      (''url'', PStr ''https://u.example/9'')]))
             (Raised Timeout))
          (PStr ''ABC123'') (PStr ''v1'') []) = PStr ''https://u.example/9''
   \<and> fst (create_tracking_link
          (example_env QueryError
             (Response 200 (JsonDict [(''tracking_link'', PStr []), (''link'', PNone),
                                      (''url'', PBool False)]))
             (Raised Timeout))
          (PStr ''ABC123'') (PStr ''v1'') []) = PStr ''elajans.link''"
  using create_tracking_link_falls_through
      [of "example_env QueryError
             (Response 200 (JsonDict [(''tracking_link'', PStr []), (''link'', PInt 0),
                                      (''url'', PStr ''https://u.example/9'')]))
             (Raised Timeout)" "PStr ''ABC123''" "PStr ''v1''" "[]"
          "[(''tracking_link'', PStr []), (''link'', PInt 0),
            (''url'', PStr ''https://u.example/9'')]"]
    create_tracking_link_falls_through
      [of "example_env QueryError
             (Response 200 (JsonDict [(''tracking_link'', PStr []), (''link'', PNone),
                                      (''url'', PBool False)]))
             (Raised Timeout)" "PStr ''ABC123''" "PStr ''v1''" "[]"
          "[(''tracking_link'', PStr []), (''link'', PNone), (''url'', PBool False)]"]
  by (simp add: example_link_answer dict_get_def)

text \<open>
  C9. For every vehicle name and every time of the clock, the request sent to the link
  service by \<open>create_tracking_link\<close> has the link name \<open>"flashsale-"\<close> followed by the date as
  \<open>strftime("%Y%m%d")\<close> gives it, \<open>"-"\<close> and the vehicle name. For a year of four digits that
  date is the eight digits of \<open>year * 10000 + month * 100 + day\<close>. Two calls for the same
  vehicle name at times of the same calendar day request the same link name, whatever the
  environments, traces and vehicle ids are.
\<close>

theorem create_tracking_link_link_name:
  "map link_name (link_requests (snd (create_tracking_link env (PStr vehicle_name) i tr))) =
     map link_name (link_requests tr)
     @ [''flashsale-'' @ strftime_Ymd (clock env tr) @ ''-'' @ vehicle_name]
   \<and> (1000 \<le> dt_year (clock env tr) \<and> dt_year (clock env tr) \<le> 9999
        \<and> dt_month (clock env tr) < 100 \<and> dt_day (clock env tr) < 100 \<longrightarrow>
      strftime_Ymd (clock env tr) =
        show_nat (dt_year (clock env tr) * 10000 + dt_month (clock env tr) * 100
                  + dt_day (clock env tr))
      \<and> length (strftime_Ymd (clock env tr)) = 8)
   \<and> (dt_year (clock env tr) = dt_year (clock env' tr')
        \<and> dt_month (clock env tr) = dt_month (clock env' tr')
        \<and> dt_day (clock env tr) = dt_day (clock env' tr') \<longrightarrow>
      last (map link_name (link_requests (snd (create_tracking_link env (PStr vehicle_name) i tr))))
      = last (map link_name
                (link_requests (snd (create_tracking_link env' (PStr vehicle_name) i' tr')))))"
proof (intro conjI impI)
  show "map link_name (link_requests (snd (create_tracking_link env (PStr vehicle_name) i tr))) =
     map link_name (link_requests tr)
     @ [''flashsale-'' @ strftime_Ymd (clock env tr) @ ''-'' @ vehicle_name]"
    by (simp add: ctl_requests link_request_for_def)
next
  assume "1000 \<le> dt_year (clock env tr) \<and> dt_year (clock env tr) \<le> 9999
        \<and> dt_month (clock env tr) < 100 \<and> dt_day (clock env tr) < 100"
  then have a: "1000 \<le> dt_year (clock env tr)" "dt_year (clock env tr) \<le> 9999"
    "dt_month (clock env tr) < 100" "dt_day (clock env tr) < 100"
    by simp_all
  show "strftime_Ymd (clock env tr) =
        show_nat (dt_year (clock env tr) * 10000 + dt_month (clock env tr) * 100
                  + dt_day (clock env tr))"
    using a by (rule strftime_Ymd_number)
  show "length (strftime_Ymd (clock env tr)) = 8"
    using a by (rule length_strftime_Ymd)
next
  assume "dt_year (clock env tr) = dt_year (clock env' tr')
        \<and> dt_month (clock env tr) = dt_month (clock env' tr')
        \<and> dt_day (clock env tr) = dt_day (clock env' tr')"
  then have "strftime_Ymd (clock env tr) = strftime_Ymd (clock env' tr')"
    by (simp add: strftime_Ymd_def)
  then show "last (map link_name
                (link_requests (snd (create_tracking_link env (PStr vehicle_name) i tr))))
      = last (map link_name
                (link_requests (snd (create_tracking_link env' (PStr vehicle_name) i' tr'))))"
    by (simp add: ctl_requests link_request_for_def)
qed

theorem create_tracking_link_link_name_witness:
  "map link_name
     (link_requests (snd (create_tracking_link
        (example_env QueryError (Raised Timeout) (Raised Timeout))
        (PStr ''ABC123'') (PStr ''v1'') []))) = [''flashsale-20240307-ABC123'']
   \<and> strftime_Ymd example_now = show_nat 20240307"
  using create_tracking_link_link_name
    [of "example_env QueryError (Raised Timeout) (Raised Timeout)" "''ABC123''" "PStr ''v1''" "[]"
        "example_env QueryError (Raised Timeout) (Raised Timeout)" "[]" "PStr ''v1''"]
  by (simp add: example_env_def example_now_def show_nat_example)

end
